theory Spec2Isabelle
  imports Complex_Main "HOL-Library.Char_ord" "HOL-Library.List_Lexorder"
begin

section \<open>Values and library parameters\<close>

text \<open>
  The program is \<^verbatim>\<open>src/apuracao.py\<close>. Its data are pandas frames whose cells hold what the
  database driver delivers. A cell is modelled as one of: a missing value (\<^verbatim>\<open>None\<close>,
  \<^verbatim>\<open>NaN\<close>, \<^verbatim>\<open>NaT\<close>: everything \<^verbatim>\<open>pd.isna\<close> accepts), a number (\<^verbatim>\<open>int\<close> or
  \<^verbatim>\<open>float\<close>), a string, or a timestamp (year, month, instant within the month).

  Numbers are exact rationals: rounding, overflow to infinity and \<^verbatim>\<open>NaN\<close> arithmetic of
  IEEE doubles are outside this model. Strings are byte strings and are read as ASCII:
  Python's Unicode-aware \<^verbatim>\<open>lower\<close>, \<^verbatim>\<open>\w\<close> and \<^verbatim>\<open>\d\<close> agree with the definitions below on
  ASCII text, and the accent replacements of \<^verbatim>\<open>normalize_colname\<close> (lines 58 to 63) change
  non-ASCII characters only.
\<close>

datatype cell = Null | Num rat | Str string | Dt nat nat nat

text \<open>
  Two behaviours belong to Python and pandas, not to the repository, and are parameters:
  \<^verbatim>\<open>str(v)\<close> of a value that is not already a string, and \<^verbatim>\<open>pd.to_datetime\<close> of a
  whole column (with its \<^verbatim>\<open>dayfirst\<close> flag), which yields for each cell either \<^verbatim>\<open>NaT\<close> or a
  timestamp.
\<close>

record pylib =
  py_str :: "cell \<Rightarrow> string"
  to_datetime :: "bool \<Rightarrow> cell list \<Rightarrow> (nat \<times> nat \<times> nat) option list"

definition str_of :: "pylib \<Rightarrow> cell \<Rightarrow> string" where
  "str_of lib v = (case v of Str s \<Rightarrow> s | _ \<Rightarrow> py_str lib v)"

section \<open>Character classes and string helpers\<close>

definition is_digit :: "char \<Rightarrow> bool" where
  "is_digit c = (c \<in> set ''0123456789'')"

definition is_upper :: "char \<Rightarrow> bool" where
  "is_upper c = (c \<in> set ''ABCDEFGHIJKLMNOPQRSTUVWXYZ'')"

definition is_lower :: "char \<Rightarrow> bool" where
  "is_lower c = (c \<in> set ''abcdefghijklmnopqrstuvwxyz'')"

text \<open>\<^verbatim>\<open>\w\<close> on ASCII: letters, digits and the underscore.\<close>

definition is_word :: "char \<Rightarrow> bool" where
  "is_word c = (is_digit c \<or> is_upper c \<or> is_lower c \<or> c = CHR ''_'')"

text \<open>The characters \<^verbatim>\<open>str.strip()\<close> removes: codes 9 to 13, 28 to 31 and the space.\<close>

definition is_space :: "char \<Rightarrow> bool" where
  "is_space c = (let n = (of_char c :: nat) in (9 \<le> n \<and> n \<le> 13) \<or> (28 \<le> n \<and> n \<le> 32))"

definition to_lower :: "char \<Rightarrow> char" where
  "to_lower c = (if is_upper c then char_of ((of_char c :: nat) + 32) else c)"

definition strip_with :: "(char \<Rightarrow> bool) \<Rightarrow> string \<Rightarrow> string" where
  "strip_with p s = rev (dropWhile p (rev (dropWhile p s)))"

text \<open>\<^verbatim>\<open>k in s\<close> for strings: \<open>k\<close> occurs in \<open>s\<close> as a contiguous substring.\<close>

fun starts_with :: "string \<Rightarrow> string \<Rightarrow> bool" where
  "starts_with [] s = True"
| "starts_with (k # ks) [] = False"
| "starts_with (k # ks) (c # cs) = (k = c \<and> starts_with ks cs)"

fun str_in :: "string \<Rightarrow> string \<Rightarrow> bool" where
  "str_in k [] = (k = [])"
| "str_in k (c # cs) = (starts_with k (c # cs) \<or> str_in k cs)"

text \<open>\<^verbatim>\<open>s.replace(old, new)\<close>, left to right, non-overlapping, for a non-empty \<open>old\<close>.\<close>

function replace_str :: "string \<Rightarrow> string \<Rightarrow> string \<Rightarrow> string" where
  "replace_str old new [] = []"
| "replace_str old new (c # cs) =
     (if old \<noteq> [] \<and> starts_with old (c # cs)
      then new @ replace_str old new (drop (length old) (c # cs))
      else c # replace_str old new cs)"
  by pat_completeness auto
termination
  by (relation "measure (\<lambda>(old, new, s). length s)") auto

text \<open>
  \<^verbatim>\<open>re.sub(r"[^...]+", rep, s)\<close>: every maximal run of characters satisfying \<open>p\<close> is
  replaced by \<open>rep\<close>.
\<close>

function sub_runs :: "(char \<Rightarrow> bool) \<Rightarrow> string \<Rightarrow> string \<Rightarrow> string" where
  "sub_runs p rep [] = []"
| "sub_runs p rep (c # cs) =
     (if p c then rep @ sub_runs p rep (dropWhile p cs) else c # sub_runs p rep cs)"
  by pat_completeness auto
termination
  by (relation "measure (\<lambda>(p, rep, s). length s)")
     (auto simp: length_dropWhile_le le_imp_less_Suc)

text \<open>\<^verbatim>\<open>re.findall(r"[\d]+", s)\<close>: the maximal runs of digits, in order.\<close>

function digit_runs :: "string \<Rightarrow> string list" where
  "digit_runs [] = []"
| "digit_runs (c # cs) =
     (if is_digit c then (c # takeWhile is_digit cs) # digit_runs (dropWhile is_digit cs)
      else digit_runs cs)"
  by pat_completeness auto
termination
  by (relation "measure length") (auto simp: length_dropWhile_le le_imp_less_Suc)

section \<open>Column names\<close>

text \<open>
  \<^verbatim>\<open>normalize_colname\<close> (lines 52 to 68). A column label is a string here, so the
  \<^verbatim>\<open>None\<close> test of line 54 has no case.
\<close>

definition normalize_colname :: "string \<Rightarrow> string" where
  "normalize_colname c =
     (let s = map to_lower (strip_with is_space c);
          s = sub_runs (\<lambda>ch. \<not> is_word ch) ''_'' s;
          s = sub_runs (\<lambda>ch. ch = CHR ''_'') ''_'' s
      in strip_with (\<lambda>ch. ch = CHR ''_'') s)"

text \<open>
  \<^verbatim>\<open>find_best_column\<close> (lines 70 to 82): the first column, in the order given, whose
  normalised name contains all keywords; failing that, the first that contains any.
\<close>

definition find_best_column :: "string list \<Rightarrow> string list \<Rightarrow> string option" where
  "find_best_column cols keywords =
     (case find (\<lambda>c. \<forall>k \<in> set keywords. str_in k (normalize_colname c)) cols of
        Some c \<Rightarrow> Some c
      | None \<Rightarrow> find (\<lambda>c. \<exists>k \<in> set keywords. str_in k (normalize_colname c)) cols)"

text \<open>
  Python's \<^verbatim>\<open>a or b\<close> on the results: \<^verbatim>\<open>None\<close> and the empty string are falsy.
\<close>

definition truthy :: "string option \<Rightarrow> bool" where
  "truthy r = (case r of None \<Rightarrow> False | Some c \<Rightarrow> c \<noteq> [])"

definition or_else :: "string option \<Rightarrow> string option \<Rightarrow> string option" where
  "or_else a b = (if truthy a then a else b)"

section \<open>Numeric parsing\<close>

text \<open>
  Python's \<^verbatim>\<open>float(s)\<close> on the strings \<^verbatim>\<open>parse_valor_brasileiro\<close> hands to it, which hold
  only digits, signs, dots, commas and the letters e and E: an optional sign, digits with
  an optional dot (at least one digit), an optional exponent. \<open>None\<close> is \<^verbatim>\<open>ValueError\<close>.
\<close>

definition digits_val :: "string \<Rightarrow> nat" where
  "digits_val ds = foldl (\<lambda>a c. 10 * a + ((of_char c :: nat) - 48)) 0 ds"

definition split_sign :: "string \<Rightarrow> bool \<times> string" where
  "split_sign s =
     (case s of
        [] \<Rightarrow> (False, [])
      | c # cs \<Rightarrow> if c = CHR ''-'' then (True, cs)
                 else if c = CHR ''+'' then (False, cs) else (False, s))"

definition scale10 :: "rat \<Rightarrow> bool \<Rightarrow> nat \<Rightarrow> rat" where
  "scale10 x neg n = (if neg then x / 10 ^ n else x * 10 ^ n)"

definition decimal_val :: "bool \<Rightarrow> string \<Rightarrow> string \<Rightarrow> rat" where
  "decimal_val neg ip fp =
     (let m = of_nat (digits_val (ip @ fp)) / 10 ^ length fp in if neg then - m else m)"

definition py_float :: "string \<Rightarrow> rat option" where
  "py_float s =
     (let (neg, body) = split_sign s;
          ip = takeWhile is_digit body;
          r1 = dropWhile is_digit body;
          (fp, r2) = (case r1 of
                        [] \<Rightarrow> ([], [])
                      | c # cs \<Rightarrow> if c = CHR ''.''
                                 then (takeWhile is_digit cs, dropWhile is_digit cs)
                                 else ([], r1))
      in if ip = [] \<and> fp = [] then None
         else case r2 of
                [] \<Rightarrow> Some (decimal_val neg ip fp)
              | c # cs \<Rightarrow>
                  if c = CHR ''e'' \<or> c = CHR ''E''
                  then (let (eneg, ed) = split_sign cs
                        in if ed \<noteq> [] \<and> list_all is_digit ed
                           then Some (scale10 (decimal_val neg ip fp) eneg (digits_val ed))
                           else None)
                  else None)"

text \<open>
  \<^verbatim>\<open>parse_valor_brasileiro\<close> (lines 84 to 134), with the branch that produced the value.
  The characters kept by line 105 are digits and \<^verbatim>\<open>- , . e E +\<close>.
\<close>

datatype branch =
  Missing | Numeric | Blank | CommaDecimal | ThousandsGrouped | Direct | DigitConcat | NoDigits

definition keep_char :: "char \<Rightarrow> bool" where
  "keep_char c = (is_digit c \<or> c \<in> set ''-,.eE+'')"

definition br_number :: "string \<Rightarrow> string" where
  "br_number s_clean = replace_str '','' ''.'' (replace_str ''.'' '''' s_clean)"

definition parse_string :: "string \<Rightarrow> branch \<times> rat" where
  "parse_string s0 =
     (let s = strip_with is_space s0 in
      if s = [] then (Blank, 0)
      else
        let s = replace_str '' '' '''' (replace_str ''R$'' '''' s);
            s_clean = filter keep_char s;
            has_comma = str_in '','' s_clean;
            has_dot = str_in ''.'' s_clean;
            t1 = (if has_comma \<and> \<not> has_dot then py_float (br_number s_clean) else None);
            t2 = (if has_dot \<and> has_comma then py_float (br_number s_clean) else None)
        in case t1 of
             Some x \<Rightarrow> (CommaDecimal, x)
           | None \<Rightarrow>
              (case t2 of
                 Some x \<Rightarrow> (ThousandsGrouped, x)
               | None \<Rightarrow>
                  (case py_float s_clean of
                     Some x \<Rightarrow> (Direct, x)
                   | None \<Rightarrow>
                      (let digits = digit_runs s_clean in
                       if digits = [] then (NoDigits, 0)
                       else (DigitConcat, of_nat (digits_val (concat digits)))))))"

definition parse_traced :: "pylib \<Rightarrow> cell \<Rightarrow> branch \<times> rat" where
  "parse_traced lib v =
     (case v of
        Null \<Rightarrow> (Missing, 0)
      | Num x \<Rightarrow> (Numeric, x)
      | _ \<Rightarrow> parse_string (str_of lib v))"

definition parse_valor_brasileiro :: "pylib \<Rightarrow> cell \<Rightarrow> rat" where
  "parse_valor_brasileiro lib v = snd (parse_traced lib v)"

section \<open>Frames\<close>

text \<open>
  A pandas \<^verbatim>\<open>DataFrame\<close>: the column labels in order, and the rows, each a function from
  label to cell (only the labels of \<open>cols\<close> are ever read). The model covers frames whose
  labels are distinct. pandas keeps a frame with a repeated label and fails, or not, when
  the label is read; the model stops with \<open>DuplicateLabels\<close> as soon as a renaming or a
  merge would repeat a label.
\<close>

record frame =
  cols :: "string list"
  rws :: "(string \<Rightarrow> cell) list"

datatype exit_reason = NotasVazia | SemColunaChave | SemColunaValor | ChaveAcessoFaltando

datatype error = SystemExit exit_reason | ValueError | TypeError | DuplicateLabels

definition bind_err :: "error + 'a \<Rightarrow> ('a \<Rightarrow> error + 'b) \<Rightarrow> error + 'b" where
  "bind_err m k = (case m of Inl e \<Rightarrow> Inl e | Inr x \<Rightarrow> k x)"

definition row_of :: "(string \<times> cell) list \<Rightarrow> string \<Rightarrow> cell" where
  "row_of kvs c = (case map_of kvs c of Some v \<Rightarrow> v | None \<Rightarrow> Null)"

definition col_values :: "string \<Rightarrow> frame \<Rightarrow> cell list" where
  "col_values name f = map (\<lambda>r. r name) (rws f)"

text \<open>\<^verbatim>\<open>df.rename(columns={a: b})\<close> for a label \<open>a\<close> of the frame.\<close>

definition rename_col :: "string \<Rightarrow> string \<Rightarrow> frame \<Rightarrow> error + frame" where
  "rename_col a b f =
     (if a = b then Inr f
      else if b \<in> set (cols f) then Inl DuplicateLabels
      else Inr \<lparr>cols = map (\<lambda>c. if c = a then b else c) (cols f),
                rws = map (\<lambda>r. r(b := r a)) (rws f)\<rparr>)"

text \<open>\<^verbatim>\<open>df.rename(columns={c: normalize_colname(c) for c in df.columns})\<close>.\<close>

definition normalize_columns :: "frame \<Rightarrow> error + frame" where
  "normalize_columns f =
     (if distinct (map normalize_colname (cols f))
      then Inr \<lparr>cols = map normalize_colname (cols f),
                rws = map (\<lambda>r c'. case find (\<lambda>c. normalize_colname c = c') (cols f) of
                                      Some c \<Rightarrow> r c | None \<Rightarrow> Null) (rws f)\<rparr>
      else Inl DuplicateLabels)"

text \<open>\<^verbatim>\<open>df[name] = values\<close>: overwrites the column, or appends it as the last one.\<close>

definition set_column :: "string \<Rightarrow> cell list \<Rightarrow> frame \<Rightarrow> frame" where
  "set_column name vals f =
     \<lparr>cols = (if name \<in> set (cols f) then cols f else cols f @ [name]),
      rws = map (\<lambda>(r, v). r(name := v)) (zip (rws f) vals)\<rparr>"

text \<open>\<^verbatim>\<open>df[name] = df[name].apply(g)\<close>.\<close>

definition map_column :: "string \<Rightarrow> (cell \<Rightarrow> cell) \<Rightarrow> frame \<Rightarrow> frame" where
  "map_column name g f = f\<lparr>rws := map (\<lambda>r. r(name := g (r name))) (rws f)\<rparr>"

section \<open>Column detection\<close>

text \<open>Lines 152 and 211: the key column.\<close>

definition detect_chave :: "string list \<Rightarrow> string option" where
  "detect_chave cs =
     or_else (find_best_column cs [''chave'', ''acesso'']) (find_best_column cs [''chave''])"

text \<open>Lines 158 to 167: the amount column of the parent table.\<close>

definition valor_cols_try :: "string list" where
  "valor_cols_try = [''valor_total'', ''valor'', ''valor_nota'', ''total'']"

fun first_found :: "string list \<Rightarrow> string list \<Rightarrow> string option" where
  "first_found cs [] = None"
| "first_found cs (tryname # rest) =
     (let found = find_best_column cs [tryname]
      in if truthy found then found else first_found cs rest)"

definition detect_valor_notas :: "string list \<Rightarrow> string option" where
  "detect_valor_notas cs =
     (case first_found cs valor_cols_try of
        Some c \<Rightarrow> Some c
      | None \<Rightarrow> find_best_column cs [''valor''])"

text \<open>Line 220: the amount column of a batch of items.\<close>

definition detect_item_val :: "string list \<Rightarrow> string option" where
  "detect_item_val cs =
     or_else (or_else (find_best_column cs [''valor_total''])
                      (find_best_column cs [''valor_item'']))
             (find_best_column cs [''valor''])"

section \<open>The parent table\<close>

text \<open>
  Lines 143 to 178: the table \<^verbatim>\<open>notas\<close> read in full, its columns normalised, the key
  column renamed to \<^verbatim>\<open>chave_acesso\<close>, the amount column renamed to \<^verbatim>\<open>valor_total\<close> and
  parsed. \<^verbatim>\<open>DataFrame.empty\<close> holds when the frame has no row or no column.
\<close>

definition load_notas :: "pylib \<Rightarrow> frame \<Rightarrow> error + frame" where
  "load_notas lib notas_df =
     (if rws notas_df = [] \<or> cols notas_df = [] then Inl (SystemExit NotasVazia)
      else bind_err (normalize_columns notas_df) (\<lambda>df.
        case detect_chave (cols df) of
          None \<Rightarrow> Inl (SystemExit SemColunaChave)
        | Some chave_col \<Rightarrow>
            bind_err (rename_col chave_col ''chave_acesso'' df) (\<lambda>df.
              case detect_valor_notas (cols df) of
                None \<Rightarrow> Inl (SystemExit SemColunaValor)
              | Some valor_col \<Rightarrow>
                  bind_err (rename_col valor_col ''valor_total'' df) (\<lambda>df.
                    let df = map_column ''valor_total''
                               (\<lambda>v. Num (parse_valor_brasileiro lib v)) df
                    in if ''chave_acesso'' \<notin> set (cols df)
                       then Inl (SystemExit ChaveAcessoFaltando)
                       else Inr df))))"

section \<open>One batch of items: key and amount\<close>

text \<open>
  Line 226, the quantity: \<^verbatim>\<open>float(re.sub(r"[^\d\-\.]", "", str(x)) or 0)\<close>; \<open>None\<close> is the
  \<^verbatim>\<open>ValueError\<close> of \<^verbatim>\<open>float\<close>.
\<close>

definition parse_quantidade :: "pylib \<Rightarrow> cell \<Rightarrow> rat option" where
  "parse_quantidade lib x =
     (let s = filter (\<lambda>c. is_digit c \<or> c = CHR ''-'' \<or> c = CHR ''.'') (str_of lib x)
      in if s = [] then Some 0 else py_float s)"

definition unit_times_quantity :: "pylib \<Rightarrow> frame \<Rightarrow> error + cell list" where
  "unit_times_quantity lib f =
     (let qs = map (parse_quantidade lib) (col_values ''quantidade'' f);
          us = map (parse_valor_brasileiro lib) (col_values ''valor_unitario'' f)
      in if None \<in> set qs then Inl ValueError
         else Inr (map (\<lambda>(u, q). Num (u * the q)) (zip us qs)))"

text \<open>Lines 220 to 231: the column \<^verbatim>\<open>valor_total_item\<close> of the batch, parsed.\<close>

definition with_valor_total_item :: "pylib \<Rightarrow> frame \<Rightarrow> error + frame" where
  "with_valor_total_item lib f =
     bind_err
       (let item_val_col = detect_item_val (cols f) in
        if truthy item_val_col then rename_col (the item_val_col) ''valor_total_item'' f
        else if ''valor_unitario'' \<in> set (cols f) \<and> ''quantidade'' \<in> set (cols f)
        then bind_err (unit_times_quantity lib f)
               (\<lambda>vals. Inr (set_column ''valor_total_item'' vals f))
        else Inr (set_column ''valor_total_item'' (replicate (length (rws f)) (Num 0)) f))
       (\<lambda>f. Inr (map_column ''valor_total_item''
                    (\<lambda>v. Num (parse_valor_brasileiro lib v)) f))"

definition valor_of :: "(string \<Rightarrow> cell) \<Rightarrow> rat" where
  "valor_of r = (case r ''valor_total_item'' of Num x \<Rightarrow> x | _ \<Rightarrow> 0)"

section \<open>One batch of items: the join with the parent table\<close>

text \<open>\<^verbatim>\<open>str(i)\<close> of a row position.\<close>

definition digit_char :: "nat \<Rightarrow> char" where
  "digit_char n = char_of (48 + n)"

fun show_nat :: "nat \<Rightarrow> string" where
  "show_nat n =
     (if n < 10 then [digit_char n] else show_nat (n div 10) @ [digit_char (n mod 10)])"

declare show_nat.simps [simp del]

text \<open>
  \<^verbatim>\<open>merge(..., how="left", suffixes=("", "_nota"))\<close>: a label of the right frame that the
  left frame also has gets the suffix; the left labels stay. Every left row is kept, once
  for each matching right row, or once with missing right cells when none matches.
\<close>

definition nota_label :: "string list \<Rightarrow> string \<Rightarrow> string" where
  "nota_label lcols c = (if c \<in> set lcols then c @ ''_nota'' else c)"

definition join_row ::
  "string list \<Rightarrow> string list \<Rightarrow> (string \<Rightarrow> cell) \<Rightarrow> (string \<Rightarrow> cell) \<Rightarrow> string \<Rightarrow> cell" where
  "join_row lcols rcols l r c =
     (if c \<in> set lcols then l c
      else case find (\<lambda>rc. nota_label lcols rc = c) rcols of
             Some rc \<Rightarrow> r rc
           | None \<Rightarrow> Null)"

definition left_join ::
  "string list \<Rightarrow> string list \<Rightarrow> ((string \<Rightarrow> cell) \<Rightarrow> (string \<Rightarrow> cell) list) \<Rightarrow>
   (string \<Rightarrow> cell) list \<Rightarrow> (string \<Rightarrow> cell) list" where
  "left_join lcols rcols matches ls =
     concat (map (\<lambda>l. case matches l of
                         [] \<Rightarrow> [join_row lcols rcols l (\<lambda>c. Null)]
                       | m # ms \<Rightarrow> map (join_row lcols rcols l) (m # ms)) ls)"

text \<open>
  Lines 238 to 245, taken by the first batch that reaches the join: the index of
  \<^verbatim>\<open>notas_index\<close> is reset to the row positions and turned into strings, the key of the
  batch is turned into strings, and the batch is joined on its key against that index.
\<close>

definition position_matches :: "frame \<Rightarrow> (string \<Rightarrow> cell) \<Rightarrow> (string \<Rightarrow> cell) list" where
  "position_matches notas_index l =
     map snd (filter (\<lambda>(i, r). Str (show_nat i) = l ''chave_acesso'')
                (enumerate 0 (rws notas_index)))"

definition merge_right_index :: "pylib \<Rightarrow> frame \<Rightarrow> frame \<Rightarrow> error + frame" where
  "merge_right_index lib chunk0 notas_index =
     (let chunk = map_column ''chave_acesso'' (\<lambda>v. Str (str_of lib v)) chunk0;
          new_cols = cols chunk @ map (nota_label (cols chunk)) (cols notas_index)
      in if distinct new_cols
         then Inr \<lparr>cols = new_cols,
                   rws = left_join (cols chunk) (cols notas_index)
                           (position_matches notas_index) (rws chunk)\<rparr>
         else Inl DuplicateLabels)"

text \<open>
  Line 247, taken by every later batch: the join on the column \<^verbatim>\<open>chave_acesso\<close> of both
  frames, which appears once in the result. Keys are compared as cells; pandas matches a
  missing key with a missing key.
\<close>

definition chave_matches :: "frame \<Rightarrow> (string \<Rightarrow> cell) \<Rightarrow> (string \<Rightarrow> cell) list" where
  "chave_matches notas_index l =
     filter (\<lambda>r. r ''chave_acesso'' = l ''chave_acesso'') (rws notas_index)"

definition merge_on_chave :: "frame \<Rightarrow> frame \<Rightarrow> error + frame" where
  "merge_on_chave chunk notas_index =
     (let rcols = filter (\<lambda>c. c \<noteq> ''chave_acesso'') (cols notas_index);
          new_cols = cols chunk @ map (nota_label (cols chunk)) rcols
      in if distinct new_cols
         then Inr \<lparr>cols = new_cols,
                   rws = left_join (cols chunk) rcols
                           (chave_matches notas_index) (rws chunk)\<rparr>
         else Inl DuplicateLabels)"

text \<open>
  Line 237: \<open>named\<close> is \<^verbatim>\<open>notas_index.index.name == "chave_acesso"\<close>, true after line 178
  and false once line 238 has run.
\<close>

definition merge_notas :: "pylib \<Rightarrow> bool \<Rightarrow> frame \<Rightarrow> frame \<Rightarrow> error + frame" where
  "merge_notas lib named chunk notas_index =
     (if named then merge_right_index lib chunk notas_index
      else merge_on_chave chunk notas_index)"

section \<open>One batch of items: date and dimensions\<close>

definition fit :: "nat \<Rightarrow> 'a option list \<Rightarrow> 'a option list" where
  "fit n xs = take n xs @ replicate (n - length xs) None"

definition date_cell :: "(nat \<times> nat \<times> nat) option \<Rightarrow> cell" where
  "date_cell d = (case d of None \<Rightarrow> Null | Some (y, m, t) \<Rightarrow> Dt y m t)"

text \<open>Lines 251 to 256. \<^verbatim>\<open>pd.NaT\<close> is a missing value.\<close>

definition with_data_emissao_parsed :: "pylib \<Rightarrow> frame \<Rightarrow> frame" where
  "with_data_emissao_parsed lib f =
     (let n = length (rws f);
          parsed =
            (if ''data_emissao'' \<in> set (cols f)
             then fit n (to_datetime lib True (col_values ''data_emissao'' f))
             else if ''data_emissao_nota'' \<in> set (cols f)
             then fit n (to_datetime lib False (col_values ''data_emissao_nota'' f))
             else replicate n None)
      in set_column ''data_emissao_parsed'' (map date_cell parsed) f)"

text \<open>Lines 259 to 264.\<close>

definition with_uf_emitente :: "frame \<Rightarrow> error + frame" where
  "with_uf_emitente f =
     bind_err
       (let uf_emit_col = or_else (find_best_column (cols f) [''uf_emitente''])
                                  (find_best_column (cols f) [''uf_emit''])
        in if truthy uf_emit_col \<and> the uf_emit_col \<notin> set [''uf_emitente'', ''uf_emit'']
           then rename_col (the uf_emit_col) ''uf_emitente'' f
           else Inr f)
       (\<lambda>f. Inr (if ''uf_emitente'' \<notin> set (cols f)
                  then set_column ''uf_emitente'' (replicate (length (rws f)) (Str [])) f
                  else f))"

text \<open>Lines 267 to 271 with \<open>name\<close> \<^verbatim>\<open>cfop\<close>, lines 273 to 277 with \<open>name\<close> \<^verbatim>\<open>ncm\<close>.\<close>

definition with_code_column :: "string \<Rightarrow> frame \<Rightarrow> error + frame" where
  "with_code_column name f =
     bind_err
       (let code_col = find_best_column (cols f) [name]
        in if truthy code_col \<and> the code_col \<noteq> name
           then rename_col (the code_col) name f
           else Inr f)
       (\<lambda>f. Inr (if name \<notin> set (cols f)
                  then set_column name (replicate (length (rws f)) (Str [])) f
                  else f))"

text \<open>
  Lines 293 to 296. \<^verbatim>\<open>.dt.to_period("M").astype(str)\<close> writes a timestamp as year, dash,
  two-digit month, and a missing timestamp as the string \<^verbatim>\<open>NaT\<close>. The column
  \<^verbatim>\<open>data_emissao_parsed\<close> holds timestamps and missing values only.
\<close>

definition pad2 :: "nat \<Rightarrow> string" where
  "pad2 m = (if m < 10 then CHR ''0'' # show_nat m else show_nat m)"

definition period_str :: "cell \<Rightarrow> cell" where
  "period_str v = (case v of Dt y m t \<Rightarrow> Str (show_nat y @ ''-'' @ pad2 m) | _ \<Rightarrow> Str ''NaT'')"

definition with_mes_ano :: "frame \<Rightarrow> frame" where
  "with_mes_ano f =
     (if ''data_emissao_parsed'' \<in> set (cols f)
      then set_column ''mes_ano'' (map period_str (col_values ''data_emissao_parsed'' f)) f
      else set_column ''mes_ano'' (replicate (length (rws f)) (Str ''unknown'')) f)"

section \<open>Accumulators\<close>

text \<open>
  The module-level settings (lines 36 to 47). The interface \<^verbatim>\<open>src/app_gradio.py\<close> assigns
  eight of them before a run; the other two keep the value of the module.
\<close>

record config =
  ALIQ_ICMS_DEFAULT :: rat
  ALIQ_ISS_DEFAULT :: rat
  ALIQ_PIS_CUM :: rat
  ALIQ_COFINS_CUM :: rat
  ENQUADRAMENTO :: string
  PRESUNCAO :: rat
  ALIQUOTA_IRPJ :: rat
  ALIQUOTA_CSLL :: rat

definition ESTIMAR_IRPJ_CSLL :: bool where
  "ESTIMAR_IRPJ_CSLL = True"

definition ESTIMATED_MARGIN :: rat where
  "ESTIMATED_MARGIN = 1 / 10"

record accum =
  total_rows_itens :: nat
  faturamento_bruto :: rat
  icms_estimado :: rat
  iss_estimado :: rat
  pis_estimado :: rat
  cofins_estimado :: rat
  irpj_estimado :: rat
  csll_estimado :: rat

text \<open>The dictionary \<^verbatim>\<open>resumo\<close> (lines 330 to 340): the accumulator and a time stamp.\<close>

record resumo = accum +
  generated_at :: string

text \<open>
  A \<^verbatim>\<open>defaultdict(float)\<close> as an association list in insertion order;
  \<open>bump k v\<close> is \<^verbatim>\<open>d[k] += v\<close>.
\<close>

type_synonym pivot = "(cell \<times> rat) list"

fun bump :: "cell \<Rightarrow> rat \<Rightarrow> pivot \<Rightarrow> pivot" where
  "bump k v [] = [(k, v)]"
| "bump k v ((k', x) # p) = (if k = k' then (k', x + v) # p else (k', x) # bump k v p)"

text \<open>
  \<^verbatim>\<open>chunk.groupby(name)["valor_total_item"].sum().items()\<close>: one pair for each value of the
  column, with the sum of the amounts of its rows. Rows whose value is missing belong to
  no group (\<^verbatim>\<open>dropna=True\<close> is the default of \<^verbatim>\<open>groupby\<close>). The groups are listed here in
  order of first appearance; the order only decides the insertion order of the dictionary.
\<close>

definition groupby_sum :: "string \<Rightarrow> frame \<Rightarrow> pivot" where
  "groupby_sum name f =
     foldl (\<lambda>p r. if r name = Null then p else bump (r name) (valor_of r) p) [] (rws f)"

definition add_groups :: "pivot \<Rightarrow> pivot \<Rightarrow> pivot" where
  "add_groups groups p = foldl (\<lambda>p (k, s). bump k s p) p groups"

datatype msg =
  LendoNotas | ProcessandoItens | ChunkInfo nat nat | ChunkSemChave
  | Finalizada string | ResumoImpresso resumo

record state =
  acc :: accum
  faturamento_por_mes :: pivot
  faturamento_por_uf_emit :: pivot
  faturamento_por_cfop :: pivot
  faturamento_por_ncm :: pivot
  index_named :: bool
  chunk_i :: nat
  printed :: "msg list"

text \<open>Lines 141, 181 to 196 and 201.\<close>

definition initial_state :: state where
  "initial_state =
     \<lparr>acc = \<lparr>total_rows_itens = 0, faturamento_bruto = 0, icms_estimado = 0,
              iss_estimado = 0, pis_estimado = 0, cofins_estimado = 0,
              irpj_estimado = 0, csll_estimado = 0\<rparr>,
      faturamento_por_mes = [], faturamento_por_uf_emit = [],
      faturamento_por_cfop = [], faturamento_por_ncm = [],
      index_named = True, chunk_i = 0,
      printed = [LendoNotas, ProcessandoItens]\<rparr>"

text \<open>Lines 281 to 289.\<close>

definition chunk_sum :: "frame \<Rightarrow> rat" where
  "chunk_sum f = sum_list (map valor_of (rws f))"

definition add_totals :: "config \<Rightarrow> frame \<Rightarrow> accum \<Rightarrow> accum" where
  "add_totals cfg f a =
     a\<lparr>total_rows_itens := total_rows_itens a + length (rws f),
       faturamento_bruto := faturamento_bruto a + chunk_sum f,
       icms_estimado := icms_estimado a + chunk_sum f * ALIQ_ICMS_DEFAULT cfg,
       iss_estimado := iss_estimado a + chunk_sum f * ALIQ_ISS_DEFAULT cfg,
       pis_estimado := pis_estimado a + chunk_sum f * ALIQ_PIS_CUM cfg,
       cofins_estimado := cofins_estimado a + chunk_sum f * ALIQ_COFINS_CUM cfg\<rparr>"

text \<open>Lines 281 to 308, on the joined batch.\<close>

definition accumulate :: "config \<Rightarrow> frame \<Rightarrow> state \<Rightarrow> state" where
  "accumulate cfg chunk0 st =
     (let chunk = with_mes_ano chunk0
      in st\<lparr>acc := add_totals cfg chunk0 (acc st),
            faturamento_por_mes :=
              add_groups (groupby_sum ''mes_ano'' chunk) (faturamento_por_mes st),
            faturamento_por_uf_emit :=
              add_groups (groupby_sum ''uf_emitente'' chunk) (faturamento_por_uf_emit st),
            faturamento_por_cfop :=
              add_groups (groupby_sum ''cfop'' chunk) (faturamento_por_cfop st),
            faturamento_por_ncm :=
              add_groups (groupby_sum ''ncm'' chunk) (faturamento_por_ncm st)\<rparr>)"

section \<open>The loop over the batches\<close>

text \<open>
  Lines 202 to 308 for one batch. A batch without a key column is left by the
  \<^verbatim>\<open>continue\<close> of line 217, before the join.
\<close>

definition process_chunk :: "pylib \<Rightarrow> config \<Rightarrow> frame \<Rightarrow> state \<Rightarrow> frame \<Rightarrow> error + state" where
  "process_chunk lib cfg notas_index st0 chunk0 =
     (let st = st0\<lparr>chunk_i := chunk_i st0 + 1,
                   printed := printed st0 @ [ChunkInfo (chunk_i st0 + 1) (length (rws chunk0))]\<rparr>
      in bind_err (normalize_columns chunk0) (\<lambda>chunk.
           let item_chave = detect_chave (cols chunk) in
           if \<not> truthy item_chave
           then Inr (st\<lparr>printed := printed st @ [ChunkSemChave]\<rparr>)
           else
             bind_err (rename_col (the item_chave) ''chave_acesso'' chunk) (\<lambda>chunk.
             bind_err (with_valor_total_item lib chunk) (\<lambda>chunk.
             bind_err (merge_notas lib (index_named st) chunk notas_index) (\<lambda>chunk.
             bind_err (with_uf_emitente (with_data_emissao_parsed lib chunk)) (\<lambda>chunk.
             bind_err (with_code_column ''cfop'' chunk) (\<lambda>chunk.
             bind_err (with_code_column ''ncm'' chunk) (\<lambda>chunk.
               Inr (accumulate cfg chunk (st\<lparr>index_named := False\<rparr>))))))))))"

fun process_chunks ::
  "pylib \<Rightarrow> config \<Rightarrow> frame \<Rightarrow> state \<Rightarrow> frame list \<Rightarrow> error + state" where
  "process_chunks lib cfg notas_index st [] = Inr st"
| "process_chunks lib cfg notas_index st (chunk # reader) =
     bind_err (process_chunk lib cfg notas_index st chunk)
       (\<lambda>st. process_chunks lib cfg notas_index st reader)"

section \<open>Profit taxes and the summary\<close>

text \<open>Lines 312 to 327.\<close>

definition estimate_irpj_csll :: "config \<Rightarrow> accum \<Rightarrow> accum" where
  "estimate_irpj_csll cfg a =
     (if ESTIMAR_IRPJ_CSLL then
        if ENQUADRAMENTO cfg = ''lucro_presumido'' then
          let base_presumida = faturamento_bruto a * PRESUNCAO cfg
          in a\<lparr>csll_estimado := base_presumida * ALIQUOTA_CSLL cfg,
               irpj_estimado := base_presumida * ALIQUOTA_IRPJ cfg\<rparr>
        else if ENQUADRAMENTO cfg = ''lucro_real'' then
          let lucro_contabil = faturamento_bruto a * ESTIMATED_MARGIN
          in a\<lparr>csll_estimado := lucro_contabil * ALIQUOTA_CSLL cfg,
               irpj_estimado := lucro_contabil * ALIQUOTA_IRPJ cfg\<rparr>
        else a\<lparr>csll_estimado := 0, irpj_estimado := 0\<rparr>
      else a\<lparr>csll_estimado := 0, irpj_estimado := 0\<rparr>)"

text \<open>Lines 330 to 340; \<open>now\<close> is the clock reading of line 339.\<close>

definition make_resumo :: "accum \<Rightarrow> string \<Rightarrow> resumo" where
  "make_resumo a now =
     \<lparr>total_rows_itens = total_rows_itens a,
      faturamento_bruto = faturamento_bruto a,
      icms_estimado = icms_estimado a,
      iss_estimado = iss_estimado a,
      pis_estimado = pis_estimado a,
      cofins_estimado = cofins_estimado a,
      irpj_estimado = irpj_estimado a,
      csll_estimado = csll_estimado a,
      generated_at = now\<rparr>"

section \<open>Pivot tables\<close>

text \<open>
  \<^verbatim>\<open>sorted(d.items())\<close> (lines 349 to 358). The pairs are compared by their keys, which are
  distinct. Strings compare with strings, numbers with numbers, timestamps with
  timestamps; any other comparison raises \<^verbatim>\<open>TypeError\<close>.
\<close>

definition kind :: "cell \<Rightarrow> nat" where
  "kind v = (case v of Null \<Rightarrow> 0 | Num x \<Rightarrow> 1 | Str s \<Rightarrow> 2 | Dt y m t \<Rightarrow> 3)"

definition cell_le :: "cell \<Rightarrow> cell \<Rightarrow> bool" where
  "cell_le a b =
     (case (a, b) of
        (Num x, Num y) \<Rightarrow> x \<le> y
      | (Str s, Str t) \<Rightarrow> s \<le> t
      | (Dt y m t, Dt y' m' t') \<Rightarrow> y < y' \<or> (y = y' \<and> (m < m' \<or> (m = m' \<and> t \<le> t')))
      | _ \<Rightarrow> True)"

fun insert_item :: "cell \<times> rat \<Rightarrow> pivot \<Rightarrow> pivot" where
  "insert_item x [] = [x]"
| "insert_item x (y # ys) =
     (if cell_le (fst x) (fst y) then x # y # ys else y # insert_item x ys)"

definition sort_items :: "pivot \<Rightarrow> pivot" where
  "sort_items p = foldr insert_item p []"

definition py_sorted :: "pivot \<Rightarrow> error + pivot" where
  "py_sorted p =
     (if \<forall>a \<in> set p. \<forall>b \<in> set p. kind (fst a) = kind (fst b)
      then Inr (sort_items p) else Inl TypeError)"

section \<open>Output files\<close>

text \<open>
  The file system as far as the run touches it: the directories made and the files
  written, each file with what was written into it.
\<close>

datatype outfile = ResumoJson resumo | ResumoCsv resumo | PivotCsv string string pivot

record world =
  dirs :: "string set"
  files :: "string \<rightharpoonup> outfile"

definition path_join :: "string \<Rightarrow> string \<Rightarrow> string" where
  "path_join outdir name =
     (if outdir = [] \<or> last outdir = CHR ''/'' then outdir @ name
      else outdir @ ''/'' @ name)"

definition write_file :: "string \<Rightarrow> outfile \<Rightarrow> world \<Rightarrow> world" where
  "write_file path content w = w\<lparr>files := (files w)(path \<mapsto> content)\<rparr>"

text \<open>
  Lines 343 to 360, in order. A \<^verbatim>\<open>TypeError\<close> of \<^verbatim>\<open>sorted\<close> leaves the files written
  before it.
\<close>

definition write_outputs :: "string \<Rightarrow> resumo \<Rightarrow> state \<Rightarrow> world \<Rightarrow> error option \<times> world" where
  "write_outputs outdir r st w0 =
     (let w1 = write_file (path_join outdir ''resumo_apuracao.json'') (ResumoJson r) w0;
          w2 = write_file (path_join outdir ''resumo_apuracao.csv'') (ResumoCsv r) w1
      in case py_sorted (faturamento_por_mes st) of
           Inl e \<Rightarrow> (Some e, w2)
         | Inr t_mes \<Rightarrow>
       let w3 = write_file (path_join outdir ''faturamento_por_mes.csv'')
                  (PivotCsv ''mes_ano'' ''faturamento'' t_mes) w2
       in case py_sorted (faturamento_por_uf_emit st) of
            Inl e \<Rightarrow> (Some e, w3)
          | Inr t_uf \<Rightarrow>
       let w4 = write_file (path_join outdir ''faturamento_por_uf_emitente.csv'')
                  (PivotCsv ''uf_emit'' ''faturamento'' t_uf) w3
       in case py_sorted (faturamento_por_cfop st) of
            Inl e \<Rightarrow> (Some e, w4)
          | Inr t_cfop \<Rightarrow>
       let w5 = write_file (path_join outdir ''faturamento_por_cfop.csv'')
                  (PivotCsv ''cfop'' ''faturamento'' t_cfop) w4
       in case py_sorted (faturamento_por_ncm st) of
            Inl e \<Rightarrow> (Some e, w5)
          | Inr t_ncm \<Rightarrow>
              (None, write_file (path_join outdir ''faturamento_por_ncm.csv'')
                       (PivotCsv ''ncm'' ''faturamento'' t_ncm) w5))"

section \<open>The run\<close>

text \<open>
  The state after the loop, and the accumulator after lines 312 to 327.
\<close>

definition run_state :: "pylib \<Rightarrow> config \<Rightarrow> frame \<Rightarrow> frame list \<Rightarrow> error + state" where
  "run_state lib cfg notas_df reader =
     bind_err (load_notas lib notas_df)
       (\<lambda>notas_index. process_chunks lib cfg notas_index initial_state reader)"

definition final_accum :: "config \<Rightarrow> state \<Rightarrow> accum" where
  "final_accum cfg st = estimate_irpj_csll cfg (acc st)"

text \<open>
  \<^verbatim>\<open>process_from_postgres\<close> (lines 139 to 363). The two \<^verbatim>\<open>read_sql\<close> calls deliver the
  table \<open>notas_df\<close> and the batches \<open>reader\<close>. The function returns nothing: what a run
  leaves is the file system, and the lines it printed when it ends normally.
\<close>

definition process_from_postgres ::
  "pylib \<Rightarrow> config \<Rightarrow> string \<Rightarrow> frame \<Rightarrow> frame list \<Rightarrow> string \<Rightarrow> world \<Rightarrow>
   (error + msg list) \<times> world" where
  "process_from_postgres lib cfg now notas_df reader outdir w0 =
     (let w = w0\<lparr>dirs := insert outdir (dirs w0)\<rparr>
      in case run_state lib cfg notas_df reader of
           Inl e \<Rightarrow> (Inl e, w)
         | Inr st \<Rightarrow>
             (let r = make_resumo (final_accum cfg st) now
              in case write_outputs outdir r st w of
                   (Some e, w') \<Rightarrow> (Inl e, w')
                 | (None, w') \<Rightarrow>
                     (Inr (printed st @ [Finalizada outdir, ResumoImpresso r]), w')))"

section \<open>What a batch holds before the join\<close>

text \<open>
  Lines 206 to 231 on their own: the batch with normalised labels, its key column renamed
  and its amounts parsed, or \<open>None\<close> for a batch that line 217 skips.
\<close>

definition prepare_chunk :: "pylib \<Rightarrow> frame \<Rightarrow> error + frame option" where
  "prepare_chunk lib chunk0 =
     bind_err (normalize_columns chunk0) (\<lambda>chunk.
       let item_chave = detect_chave (cols chunk) in
       if \<not> truthy item_chave then Inr None
       else bind_err (rename_col (the item_chave) ''chave_acesso'' chunk) (\<lambda>chunk.
            bind_err (with_valor_total_item lib chunk) (\<lambda>chunk. Inr (Some chunk))))"

text \<open>The parsed amounts of the rows of a batch; a skipped batch has none.\<close>

definition item_amounts :: "pylib \<Rightarrow> frame \<Rightarrow> rat list" where
  "item_amounts lib chunk0 =
     (case prepare_chunk lib chunk0 of
        Inr (Some chunk) \<Rightarrow> map valor_of (rws chunk)
      | _ \<Rightarrow> [])"


text \<open>Lines 203 and 204: the batch counter and the line printed for every batch.\<close>

definition count_chunk :: "state \<Rightarrow> frame \<Rightarrow> state" where
  "count_chunk st0 chunk0 =
     st0\<lparr>chunk_i := chunk_i st0 + 1,
         printed := printed st0 @ [ChunkInfo (chunk_i st0 + 1) (length (rws chunk0))]\<rparr>"

text \<open>
  Lines 234 to 277 on their own: the prepared batch joined with the parent table, with its
  parsed date and its three dimension columns.
\<close>

definition joined_chunk :: "pylib \<Rightarrow> bool \<Rightarrow> frame \<Rightarrow> frame \<Rightarrow> error + frame" where
  "joined_chunk lib named notas_index chunk =
     bind_err (merge_notas lib named chunk notas_index) (\<lambda>chunk.
     bind_err (with_uf_emitente (with_data_emissao_parsed lib chunk)) (\<lambda>chunk.
     bind_err (with_code_column ''cfop'' chunk) (\<lambda>chunk.
       with_code_column ''ncm'' chunk)))"

text \<open>Whether line 217 skips the batch.\<close>

definition skipped :: "frame \<Rightarrow> bool" where
  "skipped chunk0 =
     (distinct (map normalize_colname (cols chunk0))
      \<and> \<not> truthy (detect_chave (map normalize_colname (cols chunk0))))"

text \<open>
  The state without the batch counter and the printed lines: the part of it from which
  the output files are made.
\<close>

definition observable :: "state \<Rightarrow> state" where
  "observable st = st\<lparr>chunk_i := 0, printed := []\<rparr>"

text \<open>The first column, in order, whose normalised name contains the keyword.\<close>

definition first_containing :: "string \<Rightarrow> string list \<Rightarrow> string option" where
  "first_containing k cs = find (\<lambda>c. str_in k (normalize_colname c)) cs"

section \<open>Example inputs\<close>

text \<open>
  A small parent table and small batches, used to run the definitions. Their keys and
  regions are strings, their amounts numbers, and they have no date column, so the run on
  them applies \<^verbatim>\<open>str\<close> to no value that is not a string and parses no date; the library
  functions of \<open>lib0\<close> are stand-ins that are never consulted.
\<close>

definition lib0 :: pylib where
  "lib0 = \<lparr>py_str = (\<lambda>v. ''None''), to_datetime = (\<lambda>dayfirst cs. map (\<lambda>c. None) cs)\<rparr>"

text \<open>The settings of the module as lines 36 to 46 give them.\<close>

definition cfg0 :: config where
  "cfg0 = \<lparr>ALIQ_ICMS_DEFAULT = 18 / 100, ALIQ_ISS_DEFAULT = 5 / 100,
            ALIQ_PIS_CUM = 65 / 10000, ALIQ_COFINS_CUM = 3 / 100,
            ENQUADRAMENTO = ''lucro_presumido'', PRESUNCAO = 8 / 100,
            ALIQUOTA_IRPJ = 15 / 100, ALIQUOTA_CSLL = 9 / 100\<rparr>"

definition notas0 :: frame where
  "notas0 = \<lparr>cols = [''chave_acesso'', ''valor_total'', ''uf_emitente''],
              rws = [row_of [(''chave_acesso'', Str ''A1''), (''valor_total'', Num 100),
                             (''uf_emitente'', Str ''SP'')]]\<rparr>"

definition chunkA :: frame where
  "chunkA = \<lparr>cols = [''chave_acesso'', ''valor_total''],
              rws = [row_of [(''chave_acesso'', Str ''A1''), (''valor_total'', Num 10)]]\<rparr>"

definition chunkB :: frame where
  "chunkB = \<lparr>cols = [''chave_acesso'', ''valor_total''],
              rws = [row_of [(''chave_acesso'', Str ''A1''), (''valor_total'', Num 5)]]\<rparr>"

text \<open>A batch without a key column.\<close>

definition chunkK :: frame where
  "chunkK = \<lparr>cols = [''valor_total''], rws = [row_of [(''valor_total'', Num 7)]]\<rparr>"

text \<open>A batch whose amount is in a column named \<^verbatim>\<open>total\<close>.\<close>

definition chunkT :: frame where
  "chunkT = \<lparr>cols = [''chave_acesso'', ''total''],
              rws = [row_of [(''chave_acesso'', Str ''A1''), (''total'', Num 9)]]\<rparr>"

text \<open>A batch with a unit price and a quantity.\<close>

definition chunkU :: frame where
  "chunkU = \<lparr>cols = [''chave_acesso'', ''valor_unitario'', ''quantidade''],
              rws = [row_of [(''chave_acesso'', Str ''A1''), (''valor_unitario'', Num 2),
                             (''quantidade'', Num 3)]]\<rparr>"

text \<open>A parent table without a key column, and one without an amount column.\<close>

definition notas_sem_chave :: frame where
  "notas_sem_chave = \<lparr>cols = [''valor_total''], rws = [row_of [(''valor_total'', Num 100)]]\<rparr>"

definition notas_sem_valor :: frame where
  "notas_sem_valor = \<lparr>cols = [''chave_acesso''], rws = [row_of [(''chave_acesso'', Str ''A1'')]]\<rparr>"

definition world0 :: world where
  "world0 = \<lparr>dirs = {}, files = Map.empty\<rparr>"

text \<open>
  The states in which the loop leaves the batches \<open>chunkA\<close>, \<open>chunkB\<close> read in that order,
  and read in the other order.
\<close>

definition stAB :: state where
  "stAB =
     \<lparr>acc = \<lparr>total_rows_itens = 2, faturamento_bruto = 15, icms_estimado = 27 / 10,
              iss_estimado = 3 / 4, pis_estimado = 39 / 400, cofins_estimado = 9 / 20,
              irpj_estimado = 0, csll_estimado = 0\<rparr>,
      faturamento_por_mes = [(Str ''NaT'', 15)],
      faturamento_por_uf_emit = [(Str ''SP'', 5)],
      faturamento_por_cfop = [(Str [], 15)],
      faturamento_por_ncm = [(Str [], 15)],
      index_named = False, chunk_i = 2,
      printed = [LendoNotas, ProcessandoItens, ChunkInfo 1 1, ChunkInfo 2 1]\<rparr>"

definition stBA :: state where
  "stBA = stAB\<lparr>faturamento_por_uf_emit := [(Str ''SP'', 10)]\<rparr>"

section \<open>Facts about the numeric parser\<close>

lemma parse_string_2970_grouped: "parse_string ''2.970,00'' = (ThousandsGrouped, 2970)"
  by (simp add: parse_string_def strip_with_def is_space_def keep_char_def is_digit_def
      br_number_def py_float_def split_sign_def decimal_val_def digits_val_def Let_def)

lemma parse_string_2970_comma: "parse_string ''2970,00'' = (CommaDecimal, 2970)"
  by (simp add: parse_string_def strip_with_def is_space_def keep_char_def is_digit_def
      br_number_def py_float_def split_sign_def decimal_val_def digits_val_def Let_def)

lemma parse_string_2970_dot: "parse_string ''2970.00'' = (Direct, 2970)"
  by (simp add: parse_string_def strip_with_def is_space_def keep_char_def is_digit_def
      br_number_def py_float_def split_sign_def decimal_val_def digits_val_def Let_def)

lemma parse_string_empty: "parse_string '''' = (Blank, 0)"
  by (simp add: parse_string_def strip_with_def)

text \<open>
  C3. The numeric parser maps \<^verbatim>\<open>"2.970,00"\<close> and \<^verbatim>\<open>"2970,00"\<close> to 2970, \<^verbatim>\<open>"2970.00"\<close> to
  2970, the empty string to 0 and a missing value to 0; \<^verbatim>\<open>"2970.00"\<close> is parsed by the
  direct call of \<^verbatim>\<open>float\<close> on the cleaned string (line 122), not by a branch that removes
  dots as thousands separators.
\<close>

theorem parse_valor_brasileiro_examples:
  "parse_valor_brasileiro lib (Str ''2.970,00'') = 2970
   \<and> parse_valor_brasileiro lib (Str ''2970,00'') = 2970
   \<and> parse_valor_brasileiro lib (Str ''2.970,00'') = parse_valor_brasileiro lib (Str ''2970,00'')
   \<and> parse_valor_brasileiro lib (Str ''2970.00'') = 2970
   \<and> parse_valor_brasileiro lib (Str '''') = 0
   \<and> parse_valor_brasileiro lib Null = 0
   \<and> fst (parse_traced lib (Str ''2970.00'')) = Direct"
  by (simp add: parse_valor_brasileiro_def parse_traced_def str_of_def
      parse_string_2970_grouped parse_string_2970_comma parse_string_2970_dot
      parse_string_empty)

lemma bind_err_Inl [simp]: "bind_err (Inl e) k = Inl e"
  by (simp add: bind_err_def)

lemma bind_err_Inr [simp]: "bind_err (Inr x) k = k x"
  by (simp add: bind_err_def)


section \<open>Frames keep their amounts\<close>

lemma rename_col_Inr:
  assumes "rename_col a b f = Inr f'"
  shows "cols f' = map (\<lambda>c. if c = a then b else c) (cols f)"
    and "length (rws f') = length (rws f)"
    and "b \<noteq> ''valor_total_item'' \<Longrightarrow> map valor_of (rws f') = map valor_of (rws f)"
  using assms
  by (auto simp: rename_col_def valor_of_def map_idI split: if_splits)



lemma map_column_cols [simp]: "cols (map_column name g f) = cols f"
  by (simp add: map_column_def)

lemma map_column_length [simp]: "length (rws (map_column name g f)) = length (rws f)"
  by (simp add: map_column_def)


section \<open>Facts about the left join\<close>





section \<open>Row positions as strings\<close>






section \<open>The batch loop in stages\<close>

lemma process_chunk_stages:
  "process_chunk lib cfg notas_index st0 chunk0 =
     bind_err (prepare_chunk lib chunk0) (\<lambda>p.
       case p of
         None \<Rightarrow> Inr ((count_chunk st0 chunk0)
                        \<lparr>printed := printed (count_chunk st0 chunk0) @ [ChunkSemChave]\<rparr>)
       | Some chunk \<Rightarrow>
           bind_err (joined_chunk lib (index_named st0) notas_index chunk) (\<lambda>j.
             Inr (accumulate cfg j ((count_chunk st0 chunk0)\<lparr>index_named := False\<rparr>))))"
  by (simp add: process_chunk_def prepare_chunk_def joined_chunk_def count_chunk_def
      bind_err_def Let_def split: sum.splits)






section \<open>Amounts through the join and the dimension columns\<close>


lemma length_fit [simp]: "length (fit n xs) = n"
  by (simp add: fit_def)






section \<open>Gross revenue of a run\<close>




lemma estimate_irpj_csll_gross [simp]:
  "faturamento_bruto (estimate_irpj_csll cfg a) = faturamento_bruto a"
  by (simp add: estimate_irpj_csll_def Let_def)

section \<open>The example inputs, run\<close>

lemma run_AB: "run_state lib0 cfg0 notas0 [chunkA, chunkB] = Inr stAB"
  by code_simp

lemma run_BA: "run_state lib0 cfg0 notas0 [chunkB, chunkA] = Inr stBA"
  by code_simp




section \<open>Gross revenue\<close>



section \<open>The regime\<close>

lemma accumulate_regime:
  "accumulate (cfg\<lparr>ENQUADRAMENTO := e\<rparr>) j st = accumulate cfg j st"
  by (simp add: accumulate_def add_totals_def)

lemma process_chunk_regime:
  "process_chunk lib (cfg\<lparr>ENQUADRAMENTO := e\<rparr>) notas_index st chunk
   = process_chunk lib cfg notas_index st chunk"
  by (simp add: process_chunk_stages accumulate_regime cong: option.case_cong)

lemma process_chunks_regime:
  "process_chunks lib (cfg\<lparr>ENQUADRAMENTO := e\<rparr>) notas_index st reader
   = process_chunks lib cfg notas_index st reader"
  by (induction reader arbitrary: st) (simp_all add: process_chunk_regime)

lemma run_state_regime:
  "run_state lib (cfg\<lparr>ENQUADRAMENTO := e\<rparr>) notas_df reader
   = run_state lib cfg notas_df reader"
  by (simp add: run_state_def process_chunks_regime)

text \<open>
  C8. Two runs that differ in the regime only reach the same state after the loop. When
  the first runs under \<^verbatim>\<open>lucro_presumido\<close> with final gross revenue \<open>G > 0\<close> and non-zero
  presumption, IRPJ and CSLL rates, its \<^verbatim>\<open>irpj_estimado\<close> is \<open>G\<close> times the presumption
  rate times the IRPJ rate and its \<^verbatim>\<open>csll_estimado\<close> is \<open>G\<close> times the presumption rate
  times the CSLL rate, both non-zero; under a regime that is neither \<^verbatim>\<open>lucro_presumido\<close>
  nor \<^verbatim>\<open>lucro_real\<close> (the simplified regime \<^verbatim>\<open>simples_nacional\<close>) both are 0; and
  \<^verbatim>\<open>icms_estimado\<close>, \<^verbatim>\<open>iss_estimado\<close>, \<^verbatim>\<open>pis_estimado\<close>, \<^verbatim>\<open>cofins_estimado\<close> and the gross
  revenue are the same in the two runs.
\<close>

theorem regime_switch:
  assumes "run_state lib cfg notas_df reader = Inr st"
    and "ENQUADRAMENTO cfg = ''lucro_presumido''"
    and "e \<noteq> ''lucro_presumido''" and "e \<noteq> ''lucro_real''"
    and "0 < faturamento_bruto (final_accum cfg st)"
    and "PRESUNCAO cfg \<noteq> 0" and "ALIQUOTA_IRPJ cfg \<noteq> 0" and "ALIQUOTA_CSLL cfg \<noteq> 0"
  shows "run_state lib (cfg\<lparr>ENQUADRAMENTO := e\<rparr>) notas_df reader = Inr st
    \<and> irpj_estimado (final_accum cfg st)
        = faturamento_bruto (final_accum cfg st) * PRESUNCAO cfg * ALIQUOTA_IRPJ cfg
    \<and> csll_estimado (final_accum cfg st)
        = faturamento_bruto (final_accum cfg st) * PRESUNCAO cfg * ALIQUOTA_CSLL cfg
    \<and> irpj_estimado (final_accum cfg st) \<noteq> 0
    \<and> csll_estimado (final_accum cfg st) \<noteq> 0
    \<and> irpj_estimado (final_accum (cfg\<lparr>ENQUADRAMENTO := e\<rparr>) st) = 0
    \<and> csll_estimado (final_accum (cfg\<lparr>ENQUADRAMENTO := e\<rparr>) st) = 0
    \<and> icms_estimado (final_accum (cfg\<lparr>ENQUADRAMENTO := e\<rparr>) st)
        = icms_estimado (final_accum cfg st)
    \<and> iss_estimado (final_accum (cfg\<lparr>ENQUADRAMENTO := e\<rparr>) st)
        = iss_estimado (final_accum cfg st)
    \<and> pis_estimado (final_accum (cfg\<lparr>ENQUADRAMENTO := e\<rparr>) st)
        = pis_estimado (final_accum cfg st)
    \<and> cofins_estimado (final_accum (cfg\<lparr>ENQUADRAMENTO := e\<rparr>) st)
        = cofins_estimado (final_accum cfg st)
    \<and> faturamento_bruto (final_accum (cfg\<lparr>ENQUADRAMENTO := e\<rparr>) st)
        = faturamento_bruto (final_accum cfg st)"
proof -
  have g: "faturamento_bruto (acc st) \<noteq> 0"
    using assms(5) by (simp add: final_accum_def)
  show ?thesis
    using assms(1-4,6-8) g
    by (simp add: run_state_regime final_accum_def estimate_irpj_csll_def
        ESTIMAR_IRPJ_CSLL_def Let_def)
qed

theorem regime_switch_witness:
  "run_state lib0 cfg0 notas0 [chunkA, chunkB] = Inr stAB
   \<and> ENQUADRAMENTO cfg0 = ''lucro_presumido''
   \<and> 0 < faturamento_bruto (final_accum cfg0 stAB)
   \<and> PRESUNCAO cfg0 \<noteq> 0 \<and> ALIQUOTA_IRPJ cfg0 \<noteq> 0 \<and> ALIQUOTA_CSLL cfg0 \<noteq> 0
   \<and> run_state lib0 (cfg0\<lparr>ENQUADRAMENTO := ''simples_nacional''\<rparr>) notas0 [chunkA, chunkB]
       = Inr stAB
   \<and> irpj_estimado (final_accum cfg0 stAB) = 9 / 50
   \<and> csll_estimado (final_accum cfg0 stAB) = 27 / 250
   \<and> irpj_estimado (final_accum (cfg0\<lparr>ENQUADRAMENTO := ''simples_nacional''\<rparr>) stAB) = 0
   \<and> csll_estimado (final_accum (cfg0\<lparr>ENQUADRAMENTO := ''simples_nacional''\<rparr>) stAB) = 0
   \<and> icms_estimado (final_accum (cfg0\<lparr>ENQUADRAMENTO := ''simples_nacional''\<rparr>) stAB)
       = icms_estimado (final_accum cfg0 stAB)"
proof -
  have h: "ENQUADRAMENTO cfg0 = ''lucro_presumido''"
    "''simples_nacional'' \<noteq> ''lucro_presumido''" "''simples_nacional'' \<noteq> ''lucro_real''"
    "0 < faturamento_bruto (final_accum cfg0 stAB)"
    "PRESUNCAO cfg0 \<noteq> 0" "ALIQUOTA_IRPJ cfg0 \<noteq> 0" "ALIQUOTA_CSLL cfg0 \<noteq> 0"
    by (simp_all add: cfg0_def stAB_def final_accum_def estimate_irpj_csll_def Let_def)
  have v: "faturamento_bruto (final_accum cfg0 stAB) = 15"
    "PRESUNCAO cfg0 = 8 / 100" "ALIQUOTA_IRPJ cfg0 = 15 / 100" "ALIQUOTA_CSLL cfg0 = 9 / 100"
    by (simp_all add: cfg0_def stAB_def final_accum_def estimate_irpj_csll_def Let_def)
  from regime_switch[OF run_AB h] run_AB h show ?thesis
    by (simp add: v)
qed

section \<open>A parent table whose key or amount column is not found\<close>

lemma normalize_columns_cols:
  "normalize_columns f = Inr f' \<Longrightarrow> cols f' = map normalize_colname (cols f)"
  by (auto simp: normalize_columns_def split: if_splits)

lemma load_notas_unresolved:
  assumes "detect_chave (map normalize_colname (cols notas_df)) = None
     \<or> (\<exists>k. detect_chave (map normalize_colname (cols notas_df)) = Some k
            \<and> detect_valor_notas (map (\<lambda>c. if c = k then ''chave_acesso'' else c)
                                   (map normalize_colname (cols notas_df))) = None)"
  shows "\<exists>e \<in> {SystemExit NotasVazia, SystemExit SemColunaChave, SystemExit SemColunaValor,
               DuplicateLabels}. load_notas lib notas_df = Inl e"
proof (cases "rws notas_df = [] \<or> cols notas_df = []")
  case True
  then show ?thesis by (simp add: load_notas_def)
next
  case ne: False
  show ?thesis
  proof (cases "normalize_columns notas_df")
    case (Inl e)
    then have "e = DuplicateLabels"
      by (auto simp: normalize_columns_def split: if_splits)
    with Inl ne show ?thesis by (simp add: load_notas_def)
  next
    case (Inr df)
    note c = normalize_columns_cols[OF Inr]
    from assms show ?thesis
    proof
      assume "detect_chave (map normalize_colname (cols notas_df)) = None"
      with Inr ne c show ?thesis by (simp add: load_notas_def)
    next
      assume "\<exists>k. detect_chave (map normalize_colname (cols notas_df)) = Some k
            \<and> detect_valor_notas (map (\<lambda>c. if c = k then ''chave_acesso'' else c)
                                   (map normalize_colname (cols notas_df))) = None"
      then obtain k where k: "detect_chave (cols df) = Some k"
        and v: "detect_valor_notas (map (\<lambda>c. if c = k then ''chave_acesso'' else c) (cols df))
                = None"
        using c by auto
      show ?thesis
      proof (cases "rename_col k ''chave_acesso'' df")
        case (Inl e)
        then have "e = DuplicateLabels"
          by (auto simp: rename_col_def split: if_splits)
        with Inl Inr ne k show ?thesis by (simp add: load_notas_def)
      next
        case r: (Inr df')
        from rename_col_Inr(1)[OF r] v have "detect_valor_notas (cols df') = None" by simp
        with r Inr ne k show ?thesis by (simp add: load_notas_def)
      qed
    qed
  qed
qed

text \<open>
  C9. When the key column or the amount column of the parent table is not found (line 153,
  line 168), the run ends with an error and writes nothing: the files are those that were
  there, so neither the summary nor a pivot table exists in whole or in part. (Line 140
  has made the output directory by then.)
\<close>

theorem parent_unresolved_aborts:
  assumes "detect_chave (map normalize_colname (cols notas_df)) = None
     \<or> (\<exists>k. detect_chave (map normalize_colname (cols notas_df)) = Some k
            \<and> detect_valor_notas (map (\<lambda>c. if c = k then ''chave_acesso'' else c)
                                   (map normalize_colname (cols notas_df))) = None)"
  shows "(\<exists>e \<in> {SystemExit NotasVazia, SystemExit SemColunaChave, SystemExit SemColunaValor,
                DuplicateLabels}.
            fst (process_from_postgres lib cfg now notas_df reader outdir w0) = Inl e)
    \<and> files (snd (process_from_postgres lib cfg now notas_df reader outdir w0)) = files w0"
proof -
  from load_notas_unresolved[OF assms, of lib] obtain e where
    e: "e \<in> {SystemExit NotasVazia, SystemExit SemColunaChave, SystemExit SemColunaValor,
             DuplicateLabels}"
    and l: "load_notas lib notas_df = Inl e"
    by blast
  from l have "run_state lib cfg notas_df reader = Inl e"
    by (simp add: run_state_def)
  with e show ?thesis
    by (auto simp: process_from_postgres_def Let_def)
qed

lemma notas_sem_chave_unresolved:
  "detect_chave (map normalize_colname (cols notas_sem_chave)) = None"
  by code_simp

lemma notas_sem_valor_unresolved:
  "detect_chave (map normalize_colname (cols notas_sem_valor)) = Some ''chave_acesso''
   \<and> detect_valor_notas (map (\<lambda>c. if c = ''chave_acesso'' then ''chave_acesso'' else c)
                          (map normalize_colname (cols notas_sem_valor))) = None"
  by code_simp

theorem parent_unresolved_aborts_witness:
  "detect_chave (map normalize_colname (cols notas_sem_chave)) = None
   \<and> fst (process_from_postgres lib0 cfg0 [] notas_sem_chave [chunkA] ''output'' world0)
       = Inl (SystemExit SemColunaChave)
   \<and> files (snd (process_from_postgres lib0 cfg0 [] notas_sem_chave [chunkA] ''output'' world0))
       = Map.empty
   \<and> detect_valor_notas (map (\<lambda>c. if c = ''chave_acesso'' then ''chave_acesso'' else c)
                          (map normalize_colname (cols notas_sem_valor))) = None
   \<and> fst (process_from_postgres lib0 cfg0 [] notas_sem_valor [chunkA] ''output'' world0)
       = Inl (SystemExit SemColunaValor)
   \<and> files (snd (process_from_postgres lib0 cfg0 [] notas_sem_valor [chunkA] ''output'' world0))
       = Map.empty"
proof -
  have "case load_notas lib0 notas_sem_chave of
          Inl e \<Rightarrow> e = SystemExit SemColunaChave | Inr f \<Rightarrow> False"
    by code_simp
  then have k: "load_notas lib0 notas_sem_chave = Inl (SystemExit SemColunaChave)"
    by (simp split: sum.splits)
  have "case load_notas lib0 notas_sem_valor of
          Inl e \<Rightarrow> e = SystemExit SemColunaValor | Inr f \<Rightarrow> False"
    by code_simp
  then have v: "load_notas lib0 notas_sem_valor = Inl (SystemExit SemColunaValor)"
    by (simp split: sum.splits)
  have c2: "fst (process_from_postgres lib0 cfg0 [] notas_sem_chave [chunkA] ''output'' world0)
            = Inl (SystemExit SemColunaChave)"
    by (simp add: process_from_postgres_def run_state_def k Let_def)
  have c5: "fst (process_from_postgres lib0 cfg0 [] notas_sem_valor [chunkA] ''output'' world0)
            = Inl (SystemExit SemColunaValor)"
    by (simp add: process_from_postgres_def run_state_def v Let_def)
  have hk: "detect_chave (map normalize_colname (cols notas_sem_chave)) = None
     \<or> (\<exists>k. detect_chave (map normalize_colname (cols notas_sem_chave)) = Some k
            \<and> detect_valor_notas (map (\<lambda>c. if c = k then ''chave_acesso'' else c)
                                   (map normalize_colname (cols notas_sem_chave))) = None)"
    by (rule disjI1) (rule notas_sem_chave_unresolved)
  have hv: "detect_chave (map normalize_colname (cols notas_sem_valor)) = None
     \<or> (\<exists>k. detect_chave (map normalize_colname (cols notas_sem_valor)) = Some k
            \<and> detect_valor_notas (map (\<lambda>c. if c = k then ''chave_acesso'' else c)
                                   (map normalize_colname (cols notas_sem_valor))) = None)"
    by (rule disjI2, rule exI[of _ "''chave_acesso''"]) (rule notas_sem_valor_unresolved)
  have e: "files world0 = Map.empty"
    by (simp add: world0_def)
  have c3: "files (snd (process_from_postgres lib0 cfg0 [] notas_sem_chave [chunkA]
                          ''output'' world0)) = Map.empty"
    using parent_unresolved_aborts[OF hk, of lib0 cfg0 "[]" "[chunkA]" "''output''" world0]
    by (simp only: e)
  have c6: "files (snd (process_from_postgres lib0 cfg0 [] notas_sem_valor [chunkA]
                          ''output'' world0)) = Map.empty"
    using parent_unresolved_aborts[OF hv, of lib0 cfg0 "[]" "[chunkA]" "''output''" world0]
    by (simp only: e)
  note c1 = notas_sem_chave_unresolved
  note c4 = conjunct2[OF notas_sem_valor_unresolved]
  show ?thesis
    by (intro conjI) (rule c1 c2 c3 c4 c5 c6)+
qed

section \<open>Skipped batches\<close>

lemma prepare_chunk_skipped: "skipped chunk \<Longrightarrow> prepare_chunk lib chunk = Inr None"
  by (simp add: skipped_def prepare_chunk_def normalize_columns_def)

lemma process_chunk_skipped:
  assumes "skipped chunk"
  shows "process_chunk lib cfg notas_index st chunk
         = Inr (st\<lparr>chunk_i := chunk_i st + 1,
                   printed := printed st @ [ChunkInfo (chunk_i st + 1) (length (rws chunk)),
                                            ChunkSemChave]\<rparr>)"
  by (simp add: process_chunk_stages prepare_chunk_skipped[OF assms] count_chunk_def)

lemma observable_fields:
  assumes "observable st1 = observable st2"
  shows "acc st1 = acc st2" and "faturamento_por_mes st1 = faturamento_por_mes st2"
    and "faturamento_por_uf_emit st1 = faturamento_por_uf_emit st2"
    and "faturamento_por_cfop st1 = faturamento_por_cfop st2"
    and "faturamento_por_ncm st1 = faturamento_por_ncm st2"
    and "index_named st1 = index_named st2"
  using assms by (cases st1; cases st2; simp add: observable_def)+

lemma observable_accumulate:
  "observable (accumulate cfg j st) = accumulate cfg j (observable st)"
  by (simp add: accumulate_def observable_def Let_def)

lemma observable_count_chunk:
  "observable ((count_chunk st chunk)\<lparr>index_named := b\<rparr>) = (observable st)\<lparr>index_named := b\<rparr>"
  "observable ((count_chunk st chunk)\<lparr>printed := ms\<rparr>) = observable st"
  by (simp_all add: observable_def count_chunk_def)

lemma process_chunk_observable:
  assumes "observable st1 = observable st2"
  shows "map_sum id observable (process_chunk lib cfg notas_index st1 chunk)
         = map_sum id observable (process_chunk lib cfg notas_index st2 chunk)"
proof (cases "prepare_chunk lib chunk")
  case (Inl e)
  then show ?thesis by (simp add: process_chunk_stages)
next
  case (Inr p)
  show ?thesis
  proof (cases p)
    case None
    with Inr assms show ?thesis
      by (simp add: process_chunk_stages observable_count_chunk)
  next
    case (Some c)
    note n = observable_fields(6)[OF assms]
    show ?thesis
    proof (cases "joined_chunk lib (index_named st2) notas_index c")
      case (Inl e)
      with Inr Some n show ?thesis by (simp add: process_chunk_stages)
    next
      case j: (Inr j)
      with Inr Some n assms show ?thesis
        by (simp add: process_chunk_stages observable_accumulate observable_count_chunk)
    qed
  qed
qed

lemma process_chunks_observable:
  assumes "observable st1 = observable st2"
  shows "map_sum id observable (process_chunks lib cfg notas_index st1 reader)
         = map_sum id observable (process_chunks lib cfg notas_index st2 reader)"
  using assms
proof (induction reader arbitrary: st1 st2)
  case Nil
  then show ?case by simp
next
  case (Cons chunk reader)
  note s = process_chunk_observable[OF Cons.prems, of lib cfg notas_index chunk]
  show ?case
  proof (cases "process_chunk lib cfg notas_index st1 chunk")
    case (Inl e)
    with s have "process_chunk lib cfg notas_index st2 chunk = Inl e"
      by (cases "process_chunk lib cfg notas_index st2 chunk") simp_all
    with Inl show ?thesis by simp
  next
    case (Inr a)
    with s obtain b where b: "process_chunk lib cfg notas_index st2 chunk = Inr b"
      and ab: "observable a = observable b"
      by (cases "process_chunk lib cfg notas_index st2 chunk") simp_all
    from Cons.IH[OF ab] Inr b show ?thesis by simp
  qed
qed

lemma process_chunks_append:
  "process_chunks lib cfg notas_index st (before @ after)
   = bind_err (process_chunks lib cfg notas_index st before)
       (\<lambda>st. process_chunks lib cfg notas_index st after)"
proof (induction before arbitrary: st)
  case Nil
  show ?case by simp
next
  case (Cons chunk before)
  show ?case
    by (cases "process_chunk lib cfg notas_index st chunk") (simp_all add: Cons.IH)
qed

lemma process_chunks_without_skipped:
  assumes "skipped chunk"
  shows "map_sum id observable (process_chunks lib cfg notas_index st (before @ chunk # after))
         = map_sum id observable (process_chunks lib cfg notas_index st (before @ after))"
proof (cases "process_chunks lib cfg notas_index st before")
  case (Inl e)
  then show ?thesis by (simp add: process_chunks_append)
next
  case (Inr s)
  have "observable (s\<lparr>chunk_i := chunk_i s + 1,
                     printed := printed s @ [ChunkInfo (chunk_i s + 1) (length (rws chunk)),
                                             ChunkSemChave]\<rparr>) = observable s"
    by (simp add: observable_def)
  from process_chunks_observable[OF this] Inr show ?thesis
    by (simp add: process_chunks_append process_chunk_skipped[OF assms])
qed

lemma run_state_without_skipped:
  assumes "skipped chunk"
  shows "map_sum id observable (run_state lib cfg notas_df (before @ chunk # after))
         = map_sum id observable (run_state lib cfg notas_df (before @ after))"
  by (cases "load_notas lib notas_df")
     (simp_all add: run_state_def process_chunks_without_skipped[OF assms])

lemma write_outputs_observable:
  assumes "observable st1 = observable st2"
  shows "write_outputs outdir r st1 w = write_outputs outdir r st2 w"
  by (simp add: write_outputs_def observable_fields[OF assms] Let_def cong: sum.case_cong)

lemma process_from_postgres_observable:
  assumes "map_sum id observable (run_state lib cfg notas_df reader1)
           = map_sum id observable (run_state lib cfg notas_df reader2)"
  shows "snd (process_from_postgres lib cfg now notas_df reader1 outdir w)
         = snd (process_from_postgres lib cfg now notas_df reader2 outdir w)"
    and "isl (fst (process_from_postgres lib cfg now notas_df reader1 outdir w))
         = isl (fst (process_from_postgres lib cfg now notas_df reader2 outdir w))"
proof -
  show "snd (process_from_postgres lib cfg now notas_df reader1 outdir w)
         = snd (process_from_postgres lib cfg now notas_df reader2 outdir w)"
  proof (cases "run_state lib cfg notas_df reader1")
    case (Inl e)
    with assms have "run_state lib cfg notas_df reader2 = Inl e"
      by (cases "run_state lib cfg notas_df reader2") simp_all
    with Inl show ?thesis by (simp add: process_from_postgres_def)
  next
    case (Inr a)
    with assms obtain b where b: "run_state lib cfg notas_df reader2 = Inr b"
      and ab: "observable a = observable b"
      by (cases "run_state lib cfg notas_df reader2") simp_all
    from Inr b write_outputs_observable[OF ab] observable_fields(1)[OF ab] show ?thesis
      by (simp add: process_from_postgres_def final_accum_def Let_def split: prod.splits option.splits)
  qed
  show "isl (fst (process_from_postgres lib cfg now notas_df reader1 outdir w))
         = isl (fst (process_from_postgres lib cfg now notas_df reader2 outdir w))"
  proof (cases "run_state lib cfg notas_df reader1")
    case (Inl e)
    with assms have "run_state lib cfg notas_df reader2 = Inl e"
      by (cases "run_state lib cfg notas_df reader2") simp_all
    with Inl show ?thesis by (simp add: process_from_postgres_def)
  next
    case (Inr a)
    with assms obtain b where b: "run_state lib cfg notas_df reader2 = Inr b"
      and ab: "observable a = observable b"
      by (cases "run_state lib cfg notas_df reader2") simp_all
    from Inr b write_outputs_observable[OF ab] observable_fields(1)[OF ab] show ?thesis
      by (simp add: process_from_postgres_def final_accum_def Let_def split: prod.splits option.splits)
  qed
qed

lemma skipped_examples: "skipped chunkK" "\<not> skipped chunkA" "\<not> skipped chunkB"
  by code_simp+

lemma run_AB_ends_normally:
  "\<not> isl (fst (process_from_postgres lib0 cfg0 now notas0 [chunkA, chunkB] outdir w))"
  by (simp add: process_from_postgres_def run_AB write_outputs_def py_sorted_def stAB_def
      Let_def)

text \<open>
  C4, as the code has it. A batch whose key column is not found is skipped as a whole and
  the run goes on: the step leaves the accumulator, the four pivots and the index as they
  were and only counts the batch and prints two lines (the batch line and a warning); so
  the amounts of the batch reach neither the gross revenue nor any other output. The
  files of the run, and whether it ends in an error, are those of the same run without
  the batch: no count of skipped batches or rows is part of what the run writes.
\<close>

theorem skipped_batch_only_printed:
  assumes "skipped chunk"
  shows "process_chunk lib cfg notas_index st chunk
           = Inr (st\<lparr>chunk_i := chunk_i st + 1,
                     printed := printed st @ [ChunkInfo (chunk_i st + 1) (length (rws chunk)),
                                              ChunkSemChave]\<rparr>)
    \<and> snd (process_from_postgres lib cfg now notas_df (before @ chunk # after) outdir w)
       = snd (process_from_postgres lib cfg now notas_df (before @ after) outdir w)
    \<and> isl (fst (process_from_postgres lib cfg now notas_df (before @ chunk # after) outdir w))
       = isl (fst (process_from_postgres lib cfg now notas_df (before @ after) outdir w))"
  using process_chunk_skipped[OF assms]
    process_from_postgres_observable[OF run_state_without_skipped[OF assms]]
  by simp

theorem skipped_batch_only_printed_witness:
  "skipped chunkK
   \<and> process_chunk lib0 cfg0 notas0 initial_state chunkK
       = Inr (initial_state\<lparr>chunk_i := 1,
                printed := [LendoNotas, ProcessandoItens, ChunkInfo 1 1, ChunkSemChave]\<rparr>)
   \<and> snd (process_from_postgres lib0 cfg0 [] notas0 [chunkA, chunkK, chunkB] ''output'' world0)
       = snd (process_from_postgres lib0 cfg0 [] notas0 [chunkA, chunkB] ''output'' world0)"
proof -
  have l: "length (rws chunkK) = 1"
    by (simp add: chunkK_def)
  from skipped_batch_only_printed[OF skipped_examples(1), of lib0 cfg0 notas0 initial_state
      "[]" notas0 "[chunkA]" "[chunkB]" "''output''" world0]
    skipped_examples(1) l
  show ?thesis
    by (simp add: initial_state_def)
qed

text \<open>
  C4, as it is stated, fails: a run over two batches and the run over the same batches
  with a batch without key column (one row) between them both end normally and leave the
  same files, although the first skips no batch and the second skips one.
\<close>

theorem skipped_count_not_surfaced_counterexample:
  "length (filter skipped [chunkA, chunkB]) = 0
   \<and> length (filter skipped [chunkA, chunkK, chunkB]) = 1
   \<and> length (rws chunkK) = 1
   \<and> \<not> isl (fst (process_from_postgres lib0 cfg0 [] notas0 [chunkA, chunkB] ''output'' world0))
   \<and> \<not> isl (fst (process_from_postgres lib0 cfg0 [] notas0 [chunkA, chunkK, chunkB]
                     ''output'' world0))
   \<and> snd (process_from_postgres lib0 cfg0 [] notas0 [chunkA, chunkK, chunkB] ''output'' world0)
       = snd (process_from_postgres lib0 cfg0 [] notas0 [chunkA, chunkB] ''output'' world0)"
proof -
  note o = process_from_postgres_observable[OF
      run_state_without_skipped[OF skipped_examples(1), of lib0 cfg0 notas0 "[chunkA]" "[chunkB]"],
      of "[]" "''output''" world0]
  have l: "length (rws chunkK) = 1"
    by (simp add: chunkK_def)
  from o run_AB_ends_normally[of "[]" "''output''" world0] skipped_examples l
  show ?thesis
    by simp
qed

section \<open>The amount column of a batch\<close>

lemma find_best_column_single: "find_best_column cs [k] = first_containing k cs"
  by (simp add: find_best_column_def first_containing_def split: option.splits)

lemma normalize_colname_Nil: "normalize_colname [] = []"
  by (simp add: normalize_colname_def strip_with_def)

lemma first_containing_nonempty:
  assumes "first_containing k cs = Some c" and "k \<noteq> []"
  shows "c \<noteq> []"
proof
  assume "c = []"
  with assms(1) have "str_in k (normalize_colname [])"
    by (auto simp: first_containing_def find_Some_iff)
  with assms(2) show False
    by (simp add: normalize_colname_Nil)
qed

lemma or_else_first_containing:
  "k \<noteq> [] \<Longrightarrow>
   or_else (first_containing k cs) b
   = (case first_containing k cs of Some c \<Rightarrow> Some c | None \<Rightarrow> b)"
  by (auto simp: or_else_def truthy_def split: option.splits dest: first_containing_nonempty)

lemma detect_item_val_order:
  "detect_item_val cs =
     (case first_containing ''valor_total'' cs of
        Some c \<Rightarrow> Some c
      | None \<Rightarrow> (case first_containing ''valor_item'' cs of
                   Some c \<Rightarrow> Some c
                 | None \<Rightarrow> first_containing ''valor'' cs))"
proof -
  have "or_else (first_containing ''valor_total'' cs) (first_containing ''valor_item'' cs)
        = (case first_containing ''valor_total'' cs of
             Some c \<Rightarrow> Some c | None \<Rightarrow> first_containing ''valor_item'' cs)"
    by (rule or_else_first_containing) simp
  moreover have "\<And>a. or_else (Some a) (first_containing ''valor'' cs) = Some a \<or> a = []"
    by (simp add: or_else_def truthy_def)
  moreover have "or_else None (first_containing ''valor'' cs) = first_containing ''valor'' cs"
    by (simp add: or_else_def truthy_def)
  ultimately show ?thesis
    unfolding detect_item_val_def find_best_column_single
    by (auto split: option.splits dest: first_containing_nonempty)
qed

lemma detect_item_val_truthy: "detect_item_val cs = Some c \<Longrightarrow> truthy (detect_item_val cs)"
  unfolding detect_item_val_order
  by (auto simp: truthy_def split: option.splits dest: first_containing_nonempty)

lemma valor_unitario_contains_valor: "str_in ''valor'' (normalize_colname ''valor_unitario'')"
  by code_simp

lemma no_amount_column_no_unit_price:
  assumes "detect_item_val cs = None"
  shows "''valor_unitario'' \<notin> set cs"
proof
  assume m: "''valor_unitario'' \<in> set cs"
  from assms have "first_containing ''valor'' cs = None"
    unfolding detect_item_val_order by (simp split: option.splits)
  then have "\<forall>c \<in> set cs. \<not> str_in ''valor'' (normalize_colname c)"
    by (simp add: first_containing_def find_None_iff)
  with m valor_unitario_contains_valor show False by blast
qed

lemma with_valor_total_item_resolved:
  assumes "detect_item_val (cols f) = Some c"
    and "c = ''valor_total_item'' \<or> ''valor_total_item'' \<notin> set (cols f)"
  shows "\<exists>f'. with_valor_total_item lib f = Inr f'
           \<and> map valor_of (rws f') = map (\<lambda>r. parse_valor_brasileiro lib (r c)) (rws f)"
proof -
  note t = detect_item_val_truthy[OF assms(1)]
  have "\<exists>g. rename_col c ''valor_total_item'' f = Inr g
          \<and> map (\<lambda>r. r ''valor_total_item'') (rws g) = map (\<lambda>r. r c) (rws f)"
    using assms(2) by (cases "c = ''valor_total_item''") (auto simp: rename_col_def comp_def)
  then obtain g where g: "rename_col c ''valor_total_item'' f = Inr g"
    and r: "map (\<lambda>r. r ''valor_total_item'') (rws g) = map (\<lambda>r. r c) (rws f)"
    by blast
  from t assms(1) g have
    "with_valor_total_item lib f
     = Inr (map_column ''valor_total_item'' (\<lambda>v. Num (parse_valor_brasileiro lib v)) g)"
    by (simp add: with_valor_total_item_def Let_def)
  moreover have
    "map valor_of (rws (map_column ''valor_total_item''
                          (\<lambda>v. Num (parse_valor_brasileiro lib v)) g))
     = map (\<lambda>v. parse_valor_brasileiro lib v) (map (\<lambda>r. r ''valor_total_item'') (rws g))"
    by (simp add: map_column_def valor_of_def comp_def)
  ultimately show ?thesis
    by (simp add: r comp_def)
qed

lemma with_valor_total_item_unresolved:
  assumes "detect_item_val (cols f) = None"
  shows "\<exists>f'. with_valor_total_item lib f = Inr f'
           \<and> map valor_of (rws f') = replicate (length (rws f)) 0"
proof -
  from assms have t: "\<not> truthy (detect_item_val (cols f))"
    by (simp add: truthy_def)
  note u = no_amount_column_no_unit_price[OF assms]
  have p: "parse_valor_brasileiro lib (Num 0) = 0"
    by (simp add: parse_valor_brasileiro_def parse_traced_def)
  have z: "map (\<lambda>x. parse_valor_brasileiro lib (snd x)) (zip xs (map (\<lambda>x. Num 0) xs))
           = map (\<lambda>x. 0) xs" for xs :: "(string \<Rightarrow> cell) list"
    by (induction xs) (simp_all add: p)
  from t u have
    "with_valor_total_item lib f
     = Inr (map_column ''valor_total_item'' (\<lambda>v. Num (parse_valor_brasileiro lib v))
              (set_column ''valor_total_item'' (replicate (length (rws f)) (Num 0)) f))"
    by (simp add: with_valor_total_item_def Let_def)
  moreover have
    "map valor_of (rws (map_column ''valor_total_item''
                          (\<lambda>v. Num (parse_valor_brasileiro lib v))
                          (set_column ''valor_total_item''
                             (replicate (length (rws f)) (Num 0)) f)))
     = replicate (length (rws f)) 0"
    by (simp add: map_column_def set_column_def valor_of_def comp_def case_prod_unfold
        map_replicate_const[symmetric] z)
  ultimately show ?thesis by simp
qed

lemma detect_examples:
  "detect_item_val (cols chunkA) = Some ''valor_total''"
  "detect_item_val (cols chunkT) = None"
  "detect_valor_notas (cols chunkT) = Some ''total''"
  by code_simp+

lemma amounts_chunkT: "item_amounts lib0 chunkT = [0]"
  by code_simp

text \<open>
  C5, as the code has it (line 220). The amount column of a batch is the first column
  whose normalised name contains \<^verbatim>\<open>valor_total\<close>, failing that the first that contains
  \<^verbatim>\<open>valor_item\<close>, failing that the first that contains \<^verbatim>\<open>valor\<close>: a list of its own, not
  the list of the parent table. When a column is found, the amount of every row is the
  parsed value of that column; when no column name contains \<^verbatim>\<open>valor\<close>, the amount of
  every row is 0.
\<close>

theorem item_amount_column:
  "detect_item_val (cols f) =
     (case first_containing ''valor_total'' (cols f) of
        Some c \<Rightarrow> Some c
      | None \<Rightarrow> (case first_containing ''valor_item'' (cols f) of
                   Some c \<Rightarrow> Some c
                 | None \<Rightarrow> first_containing ''valor'' (cols f)))
   \<and> (detect_item_val (cols f) = Some c
        \<and> (c = ''valor_total_item'' \<or> ''valor_total_item'' \<notin> set (cols f))
      \<longrightarrow> (\<exists>f'. with_valor_total_item lib f = Inr f'
             \<and> map valor_of (rws f') = map (\<lambda>r. parse_valor_brasileiro lib (r c)) (rws f)))
   \<and> (detect_item_val (cols f) = None
      \<longrightarrow> (\<exists>f'. with_valor_total_item lib f = Inr f'
             \<and> map valor_of (rws f') = replicate (length (rws f)) 0))"
  using detect_item_val_order[of "cols f"] with_valor_total_item_resolved[of f c lib]
    with_valor_total_item_unresolved[of f lib]
  by blast

theorem item_amount_column_witness:
  "detect_item_val (cols chunkA) = Some ''valor_total''
   \<and> ''valor_total_item'' \<notin> set (cols chunkA)
   \<and> (\<exists>f'. with_valor_total_item lib0 chunkA = Inr f' \<and> map valor_of (rws f') = [10])
   \<and> detect_item_val (cols chunkT) = None
   \<and> (\<exists>f'. with_valor_total_item lib0 chunkT = Inr f' \<and> map valor_of (rws f') = [0])"
proof -
  have n: "''valor_total_item'' \<notin> set (cols chunkA)"
    by (simp add: chunkA_def)
  have a: "map (\<lambda>r. parse_valor_brasileiro lib0 (r ''valor_total'')) (rws chunkA) = [10]"
    by (simp add: chunkA_def row_of_def parse_valor_brasileiro_def parse_traced_def)
  have t: "replicate (length (rws chunkT)) (0::rat) = [0]"
    by (simp add: chunkT_def)
  from item_amount_column[of chunkA "''valor_total''" lib0] detect_examples(1) n a
  have 1: "\<exists>f'. with_valor_total_item lib0 chunkA = Inr f' \<and> map valor_of (rws f') = [10]"
    by simp
  from item_amount_column[of chunkT "''total''" lib0] detect_examples(2) t
  have 2: "\<exists>f'. with_valor_total_item lib0 chunkT = Inr f' \<and> map valor_of (rws f') = [0]"
    by simp
  from 1 2 n detect_examples(1,2) show ?thesis
    by blast
qed

text \<open>
  C5, as it is stated, fails: for a batch whose only amount column is named
  \<^verbatim>\<open>total\<close>, the list of the parent table finds that column, whose parsed value is 9,
  while the batch's own detection finds none and the amount of the row is 0.
\<close>

theorem item_amount_not_parent_list_counterexample:
  "detect_valor_notas (cols chunkT) = Some ''total''
   \<and> map (\<lambda>r. parse_valor_brasileiro lib0 (r ''total'')) (rws chunkT) = [9]
   \<and> detect_item_val (cols chunkT) = None
   \<and> item_amounts lib0 chunkT = [0]"
proof -
  have "map (\<lambda>r. parse_valor_brasileiro lib0 (r ''total'')) (rws chunkT) = [9]"
    by (simp add: chunkT_def row_of_def parse_valor_brasileiro_def parse_traced_def)
  with detect_examples(2,3) amounts_chunkT show ?thesis
    by simp
qed

section \<open>The files of the example runs\<close>

lemma files_AB:
  "files (snd (process_from_postgres lib0 cfg0 now notas0 [chunkA, chunkB] ''output'' world0))
     ''output/faturamento_por_uf_emitente.csv''
   = Some (PivotCsv ''uf_emit'' ''faturamento'' [(Str ''SP'', 5)])"
  "files (snd (process_from_postgres lib0 cfg0 now notas0 [chunkA, chunkB] ''output'' world0))
     ''output/faturamento_por_mes.csv''
   = Some (PivotCsv ''mes_ano'' ''faturamento'' [(Str ''NaT'', 15)])"
  "files (snd (process_from_postgres lib0 cfg0 now notas0 [chunkA, chunkB] ''output'' world0))
     ''output/resumo_apuracao.json''
   = Some (ResumoJson (make_resumo (final_accum cfg0 stAB) now))"
  by (simp_all add: process_from_postgres_def run_AB write_outputs_def py_sorted_def
      sort_items_def write_file_def path_join_def stAB_def world0_def Let_def)

lemma files_BA:
  "files (snd (process_from_postgres lib0 cfg0 now notas0 [chunkB, chunkA] ''output'' world0))
     ''output/faturamento_por_uf_emitente.csv''
   = Some (PivotCsv ''uf_emit'' ''faturamento'' [(Str ''SP'', 10)])"
  by (simp add: process_from_postgres_def run_BA write_outputs_def py_sorted_def
      sort_items_def write_file_def path_join_def stAB_def stBA_def world0_def Let_def)

lemma gross_AB: "faturamento_bruto (final_accum cfg0 stAB) = 15"
  by (simp add: final_accum_def stAB_def)

section \<open>Pivot tables against gross revenue\<close>

text \<open>
  C2, on the code. The parent table has one invoice, with key \<^verbatim>\<open>A1\<close> and region
  \<^verbatim>\<open>SP\<close>; two batches hold one item each of that invoice, with amounts 10 and 5. The run
  ends normally with gross revenue 15. The month table and the tables of CFOP and NCM
  sum to 15, but the region table holds the single pair (\<^verbatim>\<open>SP\<close>, 5): the item of the
  first batch found no parent row, its region is missing, and \<^verbatim>\<open>groupby\<close> leaves rows with
  a missing value out.
\<close>

theorem region_pivot_below_gross_revenue:
  "run_state lib0 cfg0 notas0 [chunkA, chunkB] = Inr stAB
   \<and> faturamento_bruto (final_accum cfg0 stAB) = 15
   \<and> files (snd (process_from_postgres lib0 cfg0 [] notas0 [chunkA, chunkB] ''output'' world0))
        ''output/resumo_apuracao.json''
      = Some (ResumoJson (make_resumo (final_accum cfg0 stAB) []))
   \<and> files (snd (process_from_postgres lib0 cfg0 [] notas0 [chunkA, chunkB] ''output'' world0))
        ''output/faturamento_por_uf_emitente.csv''
      = Some (PivotCsv ''uf_emit'' ''faturamento'' [(Str ''SP'', 5)])
   \<and> sum_list (map snd (faturamento_por_uf_emit stAB)) = 5
   \<and> sum_list (map snd (faturamento_por_mes stAB)) = 15
   \<and> sum_list (map snd (faturamento_por_cfop stAB)) = 15
   \<and> sum_list (map snd (faturamento_por_ncm stAB)) = 15"
proof -
  have "sum_list (map snd (faturamento_por_uf_emit stAB)) = 5"
    "sum_list (map snd (faturamento_por_mes stAB)) = 15"
    "sum_list (map snd (faturamento_por_cfop stAB)) = 15"
    "sum_list (map snd (faturamento_por_ncm stAB)) = 15"
    by (simp_all add: stAB_def)
  with run_AB gross_AB files_AB(1,3)[of "[]"] show ?thesis
    by simp
qed

section \<open>The month label of a row without date\<close>

text \<open>
  C6, on the code. Neither the parent table nor the batches have a date column, so every
  row reaches line 256 and its parsed date is \<^verbatim>\<open>NaT\<close>. The month table of the run holds
  the amounts of these rows under the label \<^verbatim>\<open>NaT\<close>, and has no label \<^verbatim>\<open>unknown\<close>.
\<close>

theorem month_label_of_missing_date:
  "''data_emissao'' \<notin> set (cols notas0) \<and> ''data_emissao'' \<notin> set (cols chunkA)
   \<and> ''data_emissao'' \<notin> set (cols chunkB)
   \<and> run_state lib0 cfg0 notas0 [chunkA, chunkB] = Inr stAB
   \<and> faturamento_por_mes stAB = [(Str ''NaT'', 15)]
   \<and> files (snd (process_from_postgres lib0 cfg0 [] notas0 [chunkA, chunkB] ''output'' world0))
        ''output/faturamento_por_mes.csv''
      = Some (PivotCsv ''mes_ano'' ''faturamento'' [(Str ''NaT'', 15)])
   \<and> map_of (faturamento_por_mes stAB) (Str ''unknown'') = None"
proof -
  have "''data_emissao'' \<notin> set (cols notas0)" "''data_emissao'' \<notin> set (cols chunkA)"
    "''data_emissao'' \<notin> set (cols chunkB)"
    by (simp_all add: notas0_def chunkA_def chunkB_def)
  moreover have "faturamento_por_mes stAB = [(Str ''NaT'', 15)]"
    "map_of (faturamento_por_mes stAB) (Str ''unknown'') = None"
    by (simp_all add: stAB_def)
  ultimately show ?thesis
    using run_AB files_AB(2)[of "[]"] by simp
qed

section \<open>The order of the batches\<close>

text \<open>
  C7, on the code. The same two batches read in the two orders: both runs end normally,
  with the same accumulator, but the region table of the first is (\<^verbatim>\<open>SP\<close>, 5) and that
  of the second is (\<^verbatim>\<open>SP\<close>, 10). The batch that comes first is joined on the row
  positions of the parent table (lines 238 to 245) and finds no parent; the other one is
  joined on the key (line 247) and finds it.
\<close>

theorem batch_order_changes_region_pivot:
  "run_state lib0 cfg0 notas0 [chunkA, chunkB] = Inr stAB
   \<and> run_state lib0 cfg0 notas0 (rev [chunkA, chunkB]) = Inr stBA
   \<and> acc stAB = acc stBA
   \<and> faturamento_por_uf_emit stAB = [(Str ''SP'', 5)]
   \<and> faturamento_por_uf_emit stBA = [(Str ''SP'', 10)]
   \<and> files (snd (process_from_postgres lib0 cfg0 [] notas0 [chunkA, chunkB] ''output'' world0))
        ''output/faturamento_por_uf_emitente.csv''
      = Some (PivotCsv ''uf_emit'' ''faturamento'' [(Str ''SP'', 5)])
   \<and> files (snd (process_from_postgres lib0 cfg0 [] notas0 (rev [chunkA, chunkB])
                    ''output'' world0))
        ''output/faturamento_por_uf_emitente.csv''
      = Some (PivotCsv ''uf_emit'' ''faturamento'' [(Str ''SP'', 10)])"
proof -
  have "acc stAB = acc stBA" "faturamento_por_uf_emit stAB = [(Str ''SP'', 5)]"
    "faturamento_por_uf_emit stBA = [(Str ''SP'', 10)]"
    by (simp_all add: stAB_def stBA_def)
  with run_AB run_BA files_AB(1)[of "[]"] files_BA[of "[]"] show ?thesis
    by simp
qed

end
